theory Spec2Isabelle
  imports Complex_Main "HOL-Library.Char_ord" "HOL-Library.List_Lexorder"
begin

section \<open>Canonical pair keys\<close>

text \<open>
  Python strings are modelled as \<^typ>\<open>string\<close>; a \<^typ>\<open>char\<close> stands for a code point
  below 256. \<open>str.strip()\<close> without argument removes leading and trailing
  white space; below 256 the white-space code points of Python are 9 to 13, 28 to 32,
  133 and 160.
\<close>

definition is_space :: "char \<Rightarrow> bool" where
  "is_space c =
     (let n = (of_char c :: nat)
      in (9 \<le> n \<and> n \<le> 13) \<or> (28 \<le> n \<and> n \<le> 32) \<or> n = 133 \<or> n = 160)"

definition strip :: "string \<Rightarrow> string" where
  "strip s = rev (dropWhile is_space (rev (dropWhile is_space s)))"

text \<open>
  \<open>sorted([p1, p2])\<close> is a stable sort in the code-point order of Python strings, which
  is the lexicographic order of \<^typ>\<open>string\<close> here; the two results are then unpacked
  into \<open>first, second\<close>.
\<close>

text \<open>The row of a data frame with the two path columns.\<close>

record path_row =
  path_a :: string
  path_b :: string

text \<open>\<open>make_key(row)\<close>, the inner function of \<open>main\<close> in \<open>analyze_results.py\<close>.\<close>

definition make_key_row :: "'a path_row_scheme \<Rightarrow> string" where
  "make_key_row row =
     (let p1 = strip (path_a row);
          p2 = strip (path_b row);
          s = sort [p1, p2];
          first = s ! 0;
          second = s ! 1
      in first @ ''|'' @ second)"

text \<open>\<open>make_key(path_a, path_b)\<close> of \<open>evaluate_small_experiment.py\<close>.\<close>

definition make_key :: "string \<Rightarrow> string \<Rightarrow> string" where
  "make_key pa pb =
     (let s = sort [strip pa, strip pb];
          first = s ! 0;
          second = s ! 1
      in first @ ''|'' @ second)"

section \<open>Data frames\<close>

text \<open>
  The gold frame has the columns \<open>path_a\<close>, \<open>path_b\<close>, \<open>label\<close>; the loaders set
  \<open>label\<close> to 1 for every row of the positive file and to 0 for every row of the
  negative file, so the column is modelled as \<^typ>\<open>bool\<close> (\<open>True\<close> for 1). The system
  frame has the columns \<open>path_a\<close>, \<open>path_b\<close>, \<open>score\<close>. Python floats are modelled as
  exact rationals: comparisons are those of the values, NaN and the infinities do not
  occur and rounding is not modelled.
\<close>

record gold_row = path_row +
  label :: bool

record system_row = path_row +
  sys_score :: rat

text \<open>The gold frame after \<open>gold['key'] = ...\<close>, and the merged frame.\<close>

record keyed_gold_row = gold_row +
  key :: string

record merged_row = keyed_gold_row +
  score :: rat

datatype error = ValueError

text \<open>\<open>gold_df.apply(make_key, axis=1)\<close> stored as the new column \<open>key\<close>.\<close>

definition gold_with_key :: "(gold_row \<Rightarrow> string) \<Rightarrow> gold_row list \<Rightarrow> keyed_gold_row list" where
  "gold_with_key mk gold =
     map (\<lambda>g. \<lparr>path_a = path_a g, path_b = path_b g, label = label g, key = mk g\<rparr>) gold"

text \<open>\<open>system[['key', 'score']]\<close> after the key column has been added.\<close>

definition system_key_score :: "(system_row \<Rightarrow> string) \<Rightarrow> system_row list \<Rightarrow> (string \<times> rat) list" where
  "system_key_score mk system = map (\<lambda>s. (mk s, sys_score s)) system"

text \<open>
  \<open>DataFrame.drop_duplicates('key')\<close>: of the rows with one key the first is kept, in
  the order of the frame.
\<close>

fun drop_duplicates_from :: "string list \<Rightarrow> (string \<times> rat) list \<Rightarrow> (string \<times> rat) list" where
  "drop_duplicates_from seen [] = []"
| "drop_duplicates_from seen (x # xs) =
     (if fst x \<in> set seen then drop_duplicates_from seen xs
      else x # drop_duplicates_from (fst x # seen) xs)"

definition drop_duplicates :: "(string \<times> rat) list \<Rightarrow> (string \<times> rat) list" where
  "drop_duplicates xs = drop_duplicates_from [] xs"

text \<open>
  \<open>pd.merge(left, right, on='key', how='left')\<close>: the rows of \<open>left\<close> in their order,
  each once for every row of \<open>right\<close> with its key (in the order of \<open>right\<close>), and once
  with a missing score (NaN, here \<open>None\<close>) when no row of \<open>right\<close> has the key.
\<close>

definition merge_left :: "keyed_gold_row list \<Rightarrow> (string \<times> rat) list \<Rightarrow> (keyed_gold_row \<times> rat option) list" where
  "merge_left left right =
     concat (map (\<lambda>l.
       (let ms = filter (\<lambda>kv. fst kv = key l) right
        in if ms = [] then [(l, None)] else map (\<lambda>kv. (l, Some (snd kv))) ms)) left)"

text \<open>\<open>merged['score'] = merged['score'].fillna(0.0)\<close>.\<close>

definition fillna_score :: "(keyed_gold_row \<times> rat option) list \<Rightarrow> merged_row list" where
  "fillna_score rows =
     map (\<lambda>(l, v). \<lparr>path_a = path_a l, path_b = path_b l, label = label l, key = key l,
                      score = (case v of None \<Rightarrow> 0 | Some x \<Rightarrow> x)\<rparr>) rows"

text \<open>Lines 64 to 68 of \<open>analyze_results.py\<close>: the system frame is merged as it is.\<close>

definition merge_analyze :: "gold_row list \<Rightarrow> system_row list \<Rightarrow> merged_row list" where
  "merge_analyze gold system =
     fillna_score (merge_left (gold_with_key make_key_row gold)
                              (system_key_score make_key_row system))"

text \<open>
  Lines 96 to 101 of \<open>evaluate_small_experiment.py\<close>: duplicate keys of the system
  frame are dropped before the merge.
\<close>

definition merge_evaluate :: "gold_row list \<Rightarrow> system_row list \<Rightarrow> merged_row list" where
  "merge_evaluate gold system =
     fillna_score (merge_left (gold_with_key (\<lambda>r. make_key (path_a r) (path_b r)) gold)
        (drop_duplicates (system_key_score (\<lambda>r. make_key (path_a r) (path_b r)) system)))"

definition y_true :: "merged_row list \<Rightarrow> bool list" where
  "y_true merged = map label merged"

definition y_scores :: "merged_row list \<Rightarrow> rat list" where
  "y_scores merged = map score merged"

section \<open>Precision, recall and F1 at a threshold\<close>

text \<open>
  The metric functions of scikit-learn are library code; they are modelled from their
  documented behaviour for binary targets with \<open>pos_label = 1\<close>. Arrays of different
  lengths are rejected with a \<open>ValueError\<close>. With \<open>zero_division=0\<close> a quotient with
  denominator zero is 0.
\<close>

definition count_tp :: "bool list \<Rightarrow> bool list \<Rightarrow> nat" where
  "count_tp yt yp = length (filter (\<lambda>(t, p). t \<and> p) (zip yt yp))"

definition count_fp :: "bool list \<Rightarrow> bool list \<Rightarrow> nat" where
  "count_fp yt yp = length (filter (\<lambda>(t, p). \<not> t \<and> p) (zip yt yp))"

definition count_fn :: "bool list \<Rightarrow> bool list \<Rightarrow> nat" where
  "count_fn yt yp = length (filter (\<lambda>(t, p). t \<and> \<not> p) (zip yt yp))"

definition prf_divide :: "nat \<Rightarrow> nat \<Rightarrow> rat" where
  "prf_divide numerator denominator =
     (if denominator = 0 then 0 else of_nat numerator / of_nat denominator)"

definition precision_score :: "bool list \<Rightarrow> bool list \<Rightarrow> error + rat" where
  "precision_score yt yp =
     (if length yt \<noteq> length yp then Inl ValueError
      else Inr (prf_divide (count_tp yt yp) (count_tp yt yp + count_fp yt yp)))"

definition recall_score :: "bool list \<Rightarrow> bool list \<Rightarrow> error + rat" where
  "recall_score yt yp =
     (if length yt \<noteq> length yp then Inl ValueError
      else Inr (prf_divide (count_tp yt yp) (count_tp yt yp + count_fn yt yp)))"

text \<open>
  \<open>f1_score\<close> divides \<open>2 * tp\<close> by \<open>2 * tp + fp + fn\<close>; lemma \<open>f1_harmonic\<close> below
  shows that this is the harmonic mean of precision and recall, 0 when both are 0.
\<close>

definition f1_score :: "bool list \<Rightarrow> bool list \<Rightarrow> error + rat" where
  "f1_score yt yp =
     (if length yt \<noteq> length yp then Inl ValueError
      else Inr (prf_divide (2 * count_tp yt yp)
                  (2 * count_tp yt yp + count_fp yt yp + count_fn yt yp)))"

text \<open>\<open>(y_scores >= t).astype(int)\<close>.\<close>

definition predict :: "rat list \<Rightarrow> rat \<Rightarrow> bool list" where
  "predict scores t = map (\<lambda>s. t \<le> s) scores"

text \<open>
  The loop over the thresholds, lines 119 to 125 of \<open>evaluate_small_experiment.py\<close>;
  an exception of a metric function ends the loop.
\<close>

fun sweep_rows :: "bool list \<Rightarrow> rat list \<Rightarrow> rat list \<Rightarrow> error + (rat \<times> rat \<times> rat \<times> rat) list" where
  "sweep_rows yt ys [] = Inr []"
| "sweep_rows yt ys (t # ts) =
     (let y_pred = predict ys t in
      case precision_score yt y_pred of Inl e \<Rightarrow> Inl e | Inr p \<Rightarrow>
      (case recall_score yt y_pred of Inl e \<Rightarrow> Inl e | Inr r \<Rightarrow>
      (case f1_score yt y_pred of Inl e \<Rightarrow> Inl e | Inr f1 \<Rightarrow>
      (case sweep_rows yt ys ts of Inl e \<Rightarrow> Inl e | Inr rows \<Rightarrow> Inr ((t, p, r, f1) # rows)))))"

definition sweep :: "merged_row list \<Rightarrow> rat list \<Rightarrow> error + (rat \<times> rat \<times> rat \<times> rat) list" where
  "sweep merged thresholds = sweep_rows (y_true merged) (y_scores merged) thresholds"

section \<open>The precision-recall curve and the best F1\<close>

text \<open>
  \<open>precision_recall_curve(y_true, y_scores)\<close>, modelled from its documentation: the
  thresholds are the distinct scores in increasing order; entry \<open>i\<close> of precision and
  of recall is the value for the predictions \<open>score >= thresholds[i]\<close>; a last entry
  1 of precision and 0 of recall has no threshold. Without a positive label the recall
  is set to 1 at every threshold. Empty input and arrays of different lengths are
  rejected.
\<close>

definition tps_at :: "bool list \<Rightarrow> rat list \<Rightarrow> rat \<Rightarrow> nat" where
  "tps_at yt ys t = count_tp yt (predict ys t)"

definition fps_at :: "bool list \<Rightarrow> rat list \<Rightarrow> rat \<Rightarrow> nat" where
  "fps_at yt ys t = count_fp yt (predict ys t)"

definition curve_precision :: "bool list \<Rightarrow> rat list \<Rightarrow> rat \<Rightarrow> rat" where
  "curve_precision yt ys t =
     (let ps = tps_at yt ys t + fps_at yt ys t
      in if ps = 0 then 0 else of_nat (tps_at yt ys t) / of_nat ps)"

definition curve_recall :: "bool list \<Rightarrow> rat list \<Rightarrow> rat \<Rightarrow> rat" where
  "curve_recall yt ys t =
     (let total = length (filter (\<lambda>l. l) yt)
      in if total = 0 then 1 else of_nat (tps_at yt ys t) / of_nat total)"

definition precision_recall_curve :: "bool list \<Rightarrow> rat list \<Rightarrow> error + (rat list \<times> rat list \<times> rat list)" where
  "precision_recall_curve yt ys =
     (if length yt \<noteq> length ys \<or> ys = [] then Inl ValueError
      else (let thresholds = sort (remdups ys)
            in Inr (map (curve_precision yt ys) thresholds @ [1],
                    map (curve_recall yt ys) thresholds @ [0],
                    thresholds)))"

text \<open>\<open>ndarray.argmax()\<close>: the first index of a greatest entry; an empty array is rejected.\<close>

fun argmax_from :: "rat \<Rightarrow> nat \<Rightarrow> nat \<Rightarrow> rat list \<Rightarrow> nat" where
  "argmax_from best best_i i [] = best_i"
| "argmax_from best best_i i (x # xs) =
     (if best < x then argmax_from x i (Suc i) xs else argmax_from best best_i (Suc i) xs)"

definition argmax :: "rat list \<Rightarrow> error + nat" where
  "argmax xs = (case xs of [] \<Rightarrow> Inl ValueError | x # rest \<Rightarrow> Inr (argmax_from x 0 1 rest))"

text \<open>
  Line 75 of \<open>analyze_results.py\<close>:
  \<open>2 * (precision[:-1] * recall[:-1]) / (precision[:-1] + recall[:-1] + 1e-10)\<close>.
\<close>

definition f1_smoothed :: "rat \<Rightarrow> rat \<Rightarrow> rat" where
  "f1_smoothed p r = 2 * (p * r) / (p + r + 1 / 10 ^ 10)"

definition f1_scores :: "rat list \<Rightarrow> rat list \<Rightarrow> rat list" where
  "f1_scores precision recall = map (\<lambda>(p, r). f1_smoothed p r) (zip (butlast precision) (butlast recall))"

text \<open>Lines 73 to 78 of \<open>analyze_results.py\<close>: the pair \<open>(best_f1, best_thresh)\<close>.\<close>

definition best_f1_thresh :: "merged_row list \<Rightarrow> error + (rat \<times> rat)" where
  "best_f1_thresh merged =
     (case precision_recall_curve (y_true merged) (y_scores merged) of
        Inl e \<Rightarrow> Inl e
      | Inr (precision, recall, thresholds) \<Rightarrow>
          (let f1s = f1_scores precision recall in
           case argmax f1s of
             Inl e \<Rightarrow> Inl e
           | Inr best_idx \<Rightarrow>
               Inr (f1s ! best_idx,
                    if best_idx < length thresholds then thresholds ! best_idx else 1 / 2)))"

section \<open>Error analysis\<close>

text \<open>
  \<open>Series.quantile(0.5)\<close> of a non-empty series, with linear interpolation: the middle
  value of the sorted scores, or the point halfway between the two middle values.
\<close>

definition quantile_half :: "rat list \<Rightarrow> rat" where
  "quantile_half xs =
     (let v = sort xs; n = length v; lo = (n - 1) div 2; hi = n div 2
      in v ! lo + (v ! hi - v ! lo) * (1 / 2))"

definition mean :: "rat list \<Rightarrow> rat" where
  "mean xs = sum_list xs / of_nat (length xs)"

text \<open>
  Lines 144 to 151 of \<open>evaluate_small_experiment.py\<close>: the pair
  \<open>(high_thresh, low_thresh)\<close>. Mean and minimum are taken only when
  \<open>high_thresh <= low_thresh\<close>, and then the frame has a row.
\<close>

definition high_low_thresh :: "merged_row list \<Rightarrow> rat \<times> rat" where
  "high_low_thresh merged =
     (let pos_scores = map score (filter (\<lambda>r. label r) merged);
          neg_scores = map score (filter (\<lambda>r. \<not> label r) merged);
          high_thresh = (if pos_scores \<noteq> [] then quantile_half pos_scores else 1 / 100);
          low_thresh = (if neg_scores \<noteq> [] then quantile_half neg_scores else 1 / 1000)
      in if high_thresh \<le> low_thresh
         then (max (1 / 100) (mean (y_scores merged) + 1 / 10 ^ 6),
               min (1 / 100) (max 0 (min_list (y_scores merged))))
         else (high_thresh, low_thresh))"

record buckets =
  tp :: "merged_row list"
  fp :: "merged_row list"
  tn :: "merged_row list"
  fn :: "merged_row list"

text \<open>
  Lines 153 to 167. The columns \<open>pred_high\<close> and \<open>pred_low\<close> are read only by the row
  filters, so they are functions of the row here.
\<close>

definition stratify :: "merged_row list \<Rightarrow> buckets" where
  "stratify merged =
     (let (high_thresh, low_thresh) = high_low_thresh merged;
          pred_high = (\<lambda>r. high_thresh \<le> score r);
          pred_low = (\<lambda>r. score r \<le> low_thresh);
          tp0 = filter (\<lambda>r. label r \<and> pred_high r) merged;
          fp0 = filter (\<lambda>r. \<not> label r \<and> 0 < score r) merged;
          fp1 = (if length fp0 < 5
                 then (let gold_neg = filter (\<lambda>r. \<not> label r) merged;
                           fp_keys = set (map key fp0);
                           extra = take (5 - length fp0) (filter (\<lambda>r. key r \<notin> fp_keys) gold_neg);
                           extra' = map (\<lambda>r. r\<lparr>score := (if score r = 0 then 1 / 10 ^ 6 else score r)\<rparr>) extra
                       in take 5 (fp0 @ extra'))
                 else fp0);
          tn0 = filter (\<lambda>r. \<not> label r \<and> pred_low r) merged;
          fn0 = filter (\<lambda>r. label r \<and> pred_low r) merged
      in \<lparr>tp = tp0, fp = fp1, tn = tn0, fn = fn0\<rparr>)"

section \<open>Reference definitions and sample frames\<close>

text \<open>
  The merge as the specification words it: the score of a gold pair is the score of the
  first row of the system frame, in its order, whose key is the pair's key, and 0 when
  the system frame has no such row.
\<close>

definition first_score :: "string \<Rightarrow> system_row list \<Rightarrow> rat" where
  "first_score k system =
     (case find (\<lambda>s. make_key (path_a s) (path_b s) = k) system of
        None \<Rightarrow> 0
      | Some s \<Rightarrow> sys_score s)"

text \<open>A gold frame of one positive pair and a system frame that scores the pair twice.\<close>

definition gold_ab :: "gold_row list" where
  "gold_ab = [\<lparr>path_a = ''a'', path_b = ''b'', label = True\<rparr>]"

definition system_ab_twice :: "system_row list" where
  "system_ab_twice =
     [\<lparr>path_a = ''a'', path_b = ''b'', sys_score = 9 / 10\<rparr>,
      \<lparr>path_a = ''b'', path_b = ''a'', sys_score = 1 / 10\<rparr>]"

text \<open>
  The counts of the specification at a threshold \<open>t\<close>, where the predicted label of a
  row is \<open>score >= t\<close>: true positives, false positives and false negatives.
\<close>

definition true_pos :: "merged_row list \<Rightarrow> rat \<Rightarrow> nat" where
  "true_pos merged t = length (filter (\<lambda>m. label m \<and> t \<le> score m) merged)"

definition false_pos :: "merged_row list \<Rightarrow> rat \<Rightarrow> nat" where
  "false_pos merged t = length (filter (\<lambda>m. \<not> label m \<and> t \<le> score m) merged)"

definition false_neg :: "merged_row list \<Rightarrow> rat \<Rightarrow> nat" where
  "false_neg merged t = length (filter (\<lambda>m. label m \<and> \<not> t \<le> score m) merged)"

text \<open>
  A gold frame of two positive and two negative pairs, a system frame that scores each
  of them once, and their merged frame (lemma \<open>tie_rows_merged\<close>).
\<close>

definition tie_gold :: "gold_row list" where
  "tie_gold =
     [\<lparr>path_a = ''a'', path_b = ''b'', label = True\<rparr>,
      \<lparr>path_a = ''c'', path_b = ''d'', label = True\<rparr>,
      \<lparr>path_a = ''e'', path_b = ''f'', label = False\<rparr>,
      \<lparr>path_a = ''g'', path_b = ''h'', label = False\<rparr>]"

definition tie_system :: "system_row list" where
  "tie_system =
     [\<lparr>path_a = ''b'', path_b = ''a'', sys_score = 3 / 4\<rparr>,
      \<lparr>path_a = ''c'', path_b = ''d'', sys_score = 1 / 2\<rparr>,
      \<lparr>path_a = ''f'', path_b = ''e'', sys_score = 1 / 2\<rparr>,
      \<lparr>path_a = ''g'', path_b = ''h'', sys_score = 1 / 2\<rparr>]"

definition tie_rows :: "merged_row list" where
  "tie_rows =
     [\<lparr>path_a = ''a'', path_b = ''b'', label = True, key = ''a|b'', score = 3 / 4\<rparr>,
      \<lparr>path_a = ''c'', path_b = ''d'', label = True, key = ''c|d'', score = 1 / 2\<rparr>,
      \<lparr>path_a = ''e'', path_b = ''f'', label = False, key = ''e|f'', score = 1 / 2\<rparr>,
      \<lparr>path_a = ''g'', path_b = ''h'', label = False, key = ''g|h'', score = 1 / 2\<rparr>]"

text \<open>
  The value that line 75 computes at the curve point of threshold \<open>t\<close>:
  \<open>2 * p * r / (p + r + 1e-10)\<close>. It is not the F1 of the specification, the
  harmonic mean \<open>2 * p * r / (p + r)\<close>, which is \<open>harmonic_f1_at\<close> below.
\<close>

definition smoothed_f1_at :: "merged_row list \<Rightarrow> rat \<Rightarrow> rat" where
  "smoothed_f1_at merged t =
     f1_smoothed (curve_precision (y_true merged) (y_scores merged) t)
                 (curve_recall (y_true merged) (y_scores merged) t)"

text \<open>
  The F1 of the specification at the curve point of threshold \<open>t\<close>: the harmonic mean
  of precision and recall, 0 when both are 0.
\<close>

definition harmonic_f1_at :: "merged_row list \<Rightarrow> rat \<Rightarrow> rat" where
  "harmonic_f1_at merged t =
     (let p = curve_precision (y_true merged) (y_scores merged) t;
          r = curve_recall (y_true merged) (y_scores merged) t
      in if p + r = 0 then 0 else 2 * (p * r) / (p + r))"

text \<open>
  A merged frame of three positive and seven negative pairs with the scores 0.75, 0.5
  and 0.25, in which the harmonic mean is the same at 0.5 and at 0.75 while the value
  of line 75 is not.
\<close>

definition harmonic_tie_rows :: "merged_row list" where
  "harmonic_tie_rows =
     [\<lparr>path_a = ''p1'', path_b = ''q'', label = True, key = ''p1|q'', score = 3 / 4\<rparr>,
      \<lparr>path_a = ''p2'', path_b = ''q'', label = True, key = ''p2|q'', score = 1 / 2\<rparr>,
      \<lparr>path_a = ''p3'', path_b = ''q'', label = True, key = ''p3|q'', score = 1 / 4\<rparr>,
      \<lparr>path_a = ''n1'', path_b = ''q'', label = False, key = ''n1|q'', score = 1 / 2\<rparr>,
      \<lparr>path_a = ''n2'', path_b = ''q'', label = False, key = ''n2|q'', score = 1 / 2\<rparr>,
      \<lparr>path_a = ''n3'', path_b = ''q'', label = False, key = ''n3|q'', score = 1 / 2\<rparr>,
      \<lparr>path_a = ''n4'', path_b = ''q'', label = False, key = ''n4|q'', score = 1 / 4\<rparr>,
      \<lparr>path_a = ''n5'', path_b = ''q'', label = False, key = ''n5|q'', score = 1 / 4\<rparr>,
      \<lparr>path_a = ''n6'', path_b = ''q'', label = False, key = ''n6|q'', score = 1 / 4\<rparr>,
      \<lparr>path_a = ''n7'', path_b = ''q'', label = False, key = ''n7|q'', score = 1 / 4\<rparr>]"

text \<open>
  The merged frame of the scenario of the specification: the positive pair \<open>(a, b)\<close>
  with score 0.9 and the negative pair \<open>(c, d)\<close> with score 0.1.
\<close>

definition scenario_rows :: "merged_row list" where
  "scenario_rows =
     [\<lparr>path_a = ''a'', path_b = ''b'', label = True, key = ''a|b'', score = 9 / 10\<rparr>,
      \<lparr>path_a = ''c'', path_b = ''d'', label = False, key = ''c|d'', score = 1 / 10\<rparr>]"

text \<open>
  A merged frame whose positive pair scores below its negative pair, so that the median
  of the positives is not above the median of the negatives.
\<close>

definition inverted_rows :: "merged_row list" where
  "inverted_rows =
     [\<lparr>path_a = ''a'', path_b = ''b'', label = True, key = ''a|b'', score = 1 / 10\<rparr>,
      \<lparr>path_a = ''c'', path_b = ''d'', label = False, key = ''c|d'', score = 9 / 10\<rparr>]"

text \<open>
  The merged frame of the second scenario of the specification: the negative pair
  \<open>(x, y)\<close> and an empty system frame.
\<close>

definition unscored_rows :: "merged_row list" where
  "unscored_rows = merge_evaluate [\<lparr>path_a = ''x'', path_b = ''y'', label = False\<rparr>] []"

section \<open>Properties of the canonical key\<close>

lemma make_key_cases:
  "make_key a b =
     (if strip a \<le> strip b then strip a @ ''|'' @ strip b else strip b @ ''|'' @ strip a)"
  by (simp add: make_key_def)

lemma make_key_row_cases:
  "make_key_row row =
     (if strip (path_a row) \<le> strip (path_b row)
      then strip (path_a row) @ ''|'' @ strip (path_b row)
      else strip (path_b row) @ ''|'' @ strip (path_a row))"
  by (simp add: make_key_row_def)

lemma strip_spaces:
  assumes "\<forall>c\<in>set s. is_space c"
  shows "strip s = []"
  using assms by (auto simp: strip_def dest: set_dropWhileD)

lemma strip_pad:
  assumes l: "\<forall>c\<in>set l. is_space c" and r: "\<forall>c\<in>set r. is_space c"
  shows "strip (l @ a @ r) = strip a"
proof -
  have front: "dropWhile is_space (l @ a @ r) = dropWhile is_space (a @ r)"
    using l by (simp add: dropWhile_append)
  show ?thesis
  proof (cases "\<forall>c\<in>set a. is_space c")
    case True
    then have "\<forall>c\<in>set (l @ a @ r). is_space c" using l r by auto
    then have "strip (l @ a @ r) = []" by (rule strip_spaces)
    moreover have "strip a = []" using True by (rule strip_spaces)
    ultimately show ?thesis by simp
  next
    case False
    then have rear: "dropWhile is_space (a @ r) = dropWhile is_space a @ r"
      by (auto simp: dropWhile_append)
    have "dropWhile is_space (rev r @ rev (dropWhile is_space a)) =
          dropWhile is_space (rev (dropWhile is_space a))"
      using r by (simp add: dropWhile_append)
    then show ?thesis using front rear by (simp add: strip_def)
  qed
qed

lemma separator_split:
  assumes "a @ CHR ''|'' # b = c @ CHR ''|'' # d" "CHR ''|'' \<notin> set a" "CHR ''|'' \<notin> set c"
  shows "a = c \<and> b = d"
  using assms
proof (induction a arbitrary: c)
  case Nil
  then show ?case by (cases c) auto
next
  case (Cons x a)
  then show ?case by (cases c) auto
qed

text \<open>
  C4, as stated, fails: the separator may occur in a path, and then two different
  unordered pairs share a key.
\<close>

theorem make_key_collision:
  "{strip ''x|y'', strip ''z''} \<noteq> {strip ''x'', strip ''y|z''}
   \<and> make_key ''x|y'' ''z'' = make_key ''x'' ''y|z''
   \<and> make_key_row \<lparr>path_a = ''x|y'', path_b = ''z''\<rparr> = make_key_row \<lparr>path_a = ''x'', path_b = ''y|z''\<rparr>"
  by (simp add: make_key_cases make_key_row_cases strip_def is_space_def doubleton_eq_iff)

text \<open>
  C4, amended: when none of the four stripped paths contains the separator \<open>|\<close>,
  different unordered pairs of stripped paths have different keys, in both scripts.
\<close>

theorem make_key_injective:
  assumes "CHR ''|'' \<notin> set (strip a) \<union> set (strip b) \<union> set (strip c) \<union> set (strip d)"
    and "{strip a, strip b} \<noteq> {strip c, strip d}"
  shows "make_key a b \<noteq> make_key c d
         \<and> make_key_row \<lparr>path_a = a, path_b = b\<rparr> \<noteq> make_key_row \<lparr>path_a = c, path_b = d\<rparr>"
  using assms
  by (auto simp: make_key_cases make_key_row_cases doubleton_eq_iff split: if_splits
           dest!: separator_split)

theorem make_key_injective_witness:
  "CHR ''|'' \<notin> set (strip '' b '') \<union> set (strip ''a'') \<union> set (strip ''a'') \<union> set (strip ''c'')
   \<and> {strip '' b '', strip ''a''} \<noteq> {strip ''a'', strip ''c''}
   \<and> make_key '' b '' ''a'' = ''a|b'' \<and> make_key ''a'' ''c'' = ''a|c''
   \<and> make_key '' b '' ''a'' \<noteq> make_key ''a'' ''c''
   \<and> make_key_row \<lparr>path_a = '' b '', path_b = ''a''\<rparr> \<noteq> make_key_row \<lparr>path_a = ''a'', path_b = ''c''\<rparr>"
proof -
  have h1: "CHR ''|'' \<notin> set (strip '' b '') \<union> set (strip ''a'') \<union> set (strip ''a'') \<union> set (strip ''c'')"
    by (simp add: strip_def is_space_def)
  have h2: "{strip '' b '', strip ''a''} \<noteq> {strip ''a'', strip ''c''}"
    by (simp add: strip_def is_space_def doubleton_eq_iff)
  have k: "make_key '' b '' ''a'' = ''a|b'' \<and> make_key ''a'' ''c'' = ''a|c''"
    by (simp add: make_key_cases strip_def is_space_def)
  show ?thesis
    using make_key_injective [OF h1 h2] h1 h2 k by blast
qed

text \<open>
  C5: in both scripts the key does not depend on the order of the two paths, and white
  space added before or after either path does not change it.
\<close>

theorem make_key_symmetric_stripped:
  "make_key a b = make_key b a
   \<and> make_key_row \<lparr>path_a = a, path_b = b\<rparr> = make_key_row \<lparr>path_a = b, path_b = a\<rparr>
   \<and> ((\<forall>c\<in>set l1 \<union> set r1 \<union> set l2 \<union> set r2. is_space c) \<longrightarrow>
        make_key (l1 @ a @ r1) (l2 @ b @ r2) = make_key a b
        \<and> make_key_row \<lparr>path_a = l1 @ a @ r1, path_b = l2 @ b @ r2\<rparr>
          = make_key_row \<lparr>path_a = a, path_b = b\<rparr>)"
proof -
  have "strip (l1 @ a @ r1) = strip a \<and> strip (l2 @ b @ r2) = strip b"
    if "\<forall>c\<in>set l1 \<union> set r1 \<union> set l2 \<union> set r2. is_space c"
    using that by (simp add: strip_pad)
  then show ?thesis
    by (auto simp: make_key_cases make_key_row_cases)
qed

theorem make_key_symmetric_stripped_witness:
  "list_all is_space ([CHR 0x09, CHR '' ''] @ [CHR 0x0A] @ [] @ ''  '')
   \<and> make_key ([CHR 0x09, CHR '' ''] @ ''x y'' @ [CHR 0x0A]) ([] @ ''a'' @ ''  '') = make_key ''x y'' ''a''
   \<and> make_key ''x y'' ''a'' = make_key ''a'' ''x y''
   \<and> make_key ''x y'' ''a'' = ''a|x y''"
proof -
  have h: "\<forall>c\<in>set [CHR 0x09, CHR '' ''] \<union> set [CHR 0x0A] \<union> set [] \<union> set ''  ''. is_space c"
    by (simp add: is_space_def)
  have k: "make_key ''x y'' ''a'' = ''a|x y''"
    by (simp add: make_key_cases strip_def is_space_def)
  have s: "list_all is_space ([CHR 0x09, CHR '' ''] @ [CHR 0x0A] @ [] @ ''  '')"
    by (simp add: is_space_def)
  show ?thesis
    using make_key_symmetric_stripped [of "''x y''" "''a''" "[CHR 0x09, CHR '' '']" "[CHR 0x0A]" "[]" "''  ''"] h k s
    by blast
qed

text \<open>
  C10: the key of a row in \<open>analyze_results.py\<close> is the key that
  \<open>evaluate_small_experiment.py\<close> computes from the row's two paths.
\<close>

theorem make_key_row_eq_make_key:
  "make_key_row \<lparr>path_a = a, path_b = b\<rparr> = make_key a b"
  by (simp add: make_key_row_def make_key_def)

section \<open>Properties of the merge\<close>

lemma filter_drop_duplicates_from:
  "filter (\<lambda>kv. fst kv = k) (drop_duplicates_from seen xs) =
     (if k \<in> set seen then []
      else (case find (\<lambda>kv. fst kv = k) xs of None \<Rightarrow> [] | Some kv \<Rightarrow> [kv]))"
proof (induction xs arbitrary: seen)
  case Nil
  then show ?case by simp
next
  case (Cons x xs)
  then show ?case by auto
qed

lemma filter_drop_duplicates:
  "filter (\<lambda>kv. fst kv = k) (drop_duplicates xs) =
     (case find (\<lambda>kv. fst kv = k) xs of None \<Rightarrow> [] | Some kv \<Rightarrow> [kv])"
  by (simp add: drop_duplicates_def filter_drop_duplicates_from)

lemma find_system_key_score:
  "find (\<lambda>kv. fst kv = k) (system_key_score mk system) =
     map_option (\<lambda>s. (mk s, sys_score s)) (find (\<lambda>s. mk s = k) system)"
  by (induction system) (auto simp: system_key_score_def)

text \<open>
  The merge of \<open>evaluate_small_experiment.py\<close> is the merge of the specification: one
  row for each gold row, in order, with the gold row's label and the first score of its
  key.
\<close>

lemma merge_evaluate_eq:
  "merge_evaluate gold system =
     map (\<lambda>g. \<lparr>path_a = path_a g, path_b = path_b g, label = label g,
                key = make_key (path_a g) (path_b g),
                score = first_score (make_key (path_a g) (path_b g)) system\<rparr>) gold"
proof (induction gold)
  case Nil
  then show ?case
    by (simp add: merge_evaluate_def gold_with_key_def merge_left_def fillna_score_def)
next
  case (Cons g gold)
  then show ?case
    by (simp add: merge_evaluate_def gold_with_key_def merge_left_def fillna_score_def
        filter_drop_duplicates find_system_key_score first_score_def split: option.splits)
qed

lemma merge_evaluate_length: "length (merge_evaluate gold system) = length gold"
  by (simp add: merge_evaluate_eq)

lemma merge_evaluate_label: "map label (merge_evaluate gold system) = map label gold"
  by (simp add: merge_evaluate_eq comp_def)

lemma merge_evaluate_score:
  assumes "i < length gold"
  shows "score (merge_evaluate gold system ! i) =
           first_score (make_key (path_a (gold ! i)) (path_b (gold ! i))) system"
  using assms by (simp add: merge_evaluate_eq)

text \<open>
  C2: the merged frame has one row for each gold row. \<open>evaluate_small_experiment.py\<close>
  does so (\<open>merge_evaluate_length\<close>, \<open>merge_evaluate_label\<close>);
  \<open>analyze_results.py\<close> merges the system frame without dropping its duplicate keys,
  and a gold pair that the system frame scores twice gets two merged rows.
\<close>

theorem merge_analyze_two_rows_for_one_gold:
  "length gold_ab = 1 \<and> length (merge_analyze gold_ab system_ab_twice) = 2
   \<and> length (merge_evaluate gold_ab system_ab_twice) = 1"
  by (simp add: gold_ab_def system_ab_twice_def merge_analyze_def merge_evaluate_def
      fillna_score_def merge_left_def gold_with_key_def system_key_score_def
      drop_duplicates_def make_key_row_cases make_key_cases strip_def is_space_def)

text \<open>
  C3: the score of a merged row is the first score of its key in the system frame.
  \<open>evaluate_small_experiment.py\<close> does so (\<open>merge_evaluate_score\<close>); in
  \<open>analyze_results.py\<close> the second row of the gold pair carries the score of the
  second system row with its key.
\<close>

theorem merge_analyze_later_score:
  "map score (merge_analyze gold_ab system_ab_twice) = [9 / 10, 1 / 10]
   \<and> map score (merge_evaluate gold_ab system_ab_twice) = [9 / 10]
   \<and> first_score ''a|b'' system_ab_twice = 9 / 10"
  by (simp add: gold_ab_def system_ab_twice_def merge_analyze_def merge_evaluate_def
      fillna_score_def merge_left_def gold_with_key_def system_key_score_def first_score_def
      drop_duplicates_def make_key_row_cases make_key_cases strip_def is_space_def)

section \<open>Properties of the threshold sweep\<close>

lemma count_tp_merged: "count_tp (y_true merged) (predict (y_scores merged) t) = true_pos merged t"
  by (induction merged) (simp_all add: count_tp_def y_true_def y_scores_def predict_def true_pos_def)

lemma count_fp_merged: "count_fp (y_true merged) (predict (y_scores merged) t) = false_pos merged t"
  by (induction merged) (simp_all add: count_fp_def y_true_def y_scores_def predict_def false_pos_def)

lemma count_fn_merged: "count_fn (y_true merged) (predict (y_scores merged) t) = false_neg merged t"
  by (induction merged) (simp_all add: count_fn_def y_true_def y_scores_def predict_def false_neg_def)

lemma length_predict: "length (predict (y_scores merged) t) = length (y_true merged)"
  by (simp add: predict_def y_scores_def y_true_def)

lemma true_pos_false_neg:
  "true_pos merged t + false_neg merged t = length (filter (\<lambda>m. label m) merged)"
  by (induction merged) (simp_all add: true_pos_def false_neg_def)

lemma true_pos_antimono: "t1 \<le> t2 \<Longrightarrow> true_pos merged t2 \<le> true_pos merged t1"
  by (induction merged) (auto simp: true_pos_def)

lemma prf_divide_mono: "a \<le> b \<Longrightarrow> prf_divide a n \<le> prf_divide b n"
  by (simp add: prf_divide_def divide_right_mono)

lemma harmonic_quotient:
  fixes x y z :: rat
  assumes "0 < x" "0 < y" "0 < z"
  shows "2 * (x / y * (x / z)) / (x / y + x / z) = 2 * x / (y + z)"
proof -
  have sum: "x / y + x / z = x * (y + z) / (y * z)"
    using assms by (simp add: field_simps)
  have prod: "x / y * (x / z) = x * x / (y * z)"
    by simp
  have "x * y + x * z \<noteq> 0" "y + z \<noteq> 0"
    using assms by (simp_all add: add_pos_pos less_imp_neq [THEN not_sym])
  then have "2 * (x * x / (y * z)) / (x * (y + z) / (y * z)) = 2 * x / (y + z)"
    using assms by (simp add: field_simps)
  then show ?thesis by (simp only: sum prod)
qed

lemma f1_harmonic:
  "prf_divide (2 * a) (2 * a + b + c) =
     (let p = prf_divide a (a + b); r = prf_divide a (a + c)
      in if p + r = 0 then 0 else 2 * (p * r) / (p + r))"
proof (cases "a = 0")
  case True
  then show ?thesis by (simp add: prf_divide_def)
next
  case False
  define x y z :: rat where "x = of_nat a" and "y = of_nat a + of_nat b" and "z = of_nat a + of_nat c"
  have pos: "0 < x" "0 < y" "0 < z"
    using False by (simp_all add: x_def y_def z_def add_pos_nonneg)
  have p: "prf_divide a (a + b) = x / y" and r: "prf_divide a (a + c) = x / z"
    using False by (simp_all add: prf_divide_def x_def y_def z_def)
  have f: "prf_divide (2 * a) (2 * a + b + c) = 2 * x / (y + z)"
    using False by (simp add: prf_divide_def x_def y_def z_def algebra_simps)
  have "0 < x / y + x / z"
    using pos by (simp add: add_pos_pos)
  then have "x / y + x / z \<noteq> 0" by simp
  then show ?thesis
    using harmonic_quotient [OF pos] by (simp add: p r f Let_def)
qed

lemma sweep_rows_eq:
  "sweep_rows (y_true merged) (y_scores merged) ts =
     Inr (map (\<lambda>t. (t, prf_divide (true_pos merged t) (true_pos merged t + false_pos merged t),
                      prf_divide (true_pos merged t) (true_pos merged t + false_neg merged t),
                      prf_divide (2 * true_pos merged t)
                         (2 * true_pos merged t + false_pos merged t + false_neg merged t))) ts)"
  by (induction ts)
     (simp_all add: precision_score_def recall_score_def f1_score_def length_predict
        count_tp_merged count_fp_merged count_fn_merged)

lemma tie_rows_merged:
  "merge_analyze tie_gold tie_system = tie_rows \<and> merge_evaluate tie_gold tie_system = tie_rows"
  by (simp add: tie_gold_def tie_system_def tie_rows_def merge_analyze_def merge_evaluate_def
      fillna_score_def merge_left_def gold_with_key_def system_key_score_def
      drop_duplicates_def make_key_row_cases make_key_cases strip_def is_space_def)

text \<open>
  C6: for a merged frame with at least one row the sweep returns a row for every
  threshold and raises nothing. With the predicted label \<open>score >= t\<close>, the precision is
  0 when nothing is predicted positive and \<open>TP / (TP + FP)\<close> otherwise, the recall is 0
  when no row is labelled positive and \<open>TP / (TP + FN)\<close> otherwise, and F1 is the
  harmonic mean of the two, 0 when both are 0.
\<close>

theorem sweep_total:
  assumes "merged \<noteq> []"
  shows "\<exists>rows. sweep merged thresholds = Inr rows \<and> map fst rows = thresholds \<and>
           (\<forall>(t, p, r, f1)\<in>set rows.
              p = (if true_pos merged t + false_pos merged t = 0 then 0
                   else of_nat (true_pos merged t) / of_nat (true_pos merged t + false_pos merged t)) \<and>
              r = (if true_pos merged t + false_neg merged t = 0 then 0
                   else of_nat (true_pos merged t) / of_nat (true_pos merged t + false_neg merged t)) \<and>
              f1 = (if p + r = 0 then 0 else 2 * (p * r) / (p + r)) \<and>
              (p = 0 \<and> r = 0 \<longrightarrow> f1 = 0))"
proof -
  let ?row = "\<lambda>t. (t, prf_divide (true_pos merged t) (true_pos merged t + false_pos merged t),
                      prf_divide (true_pos merged t) (true_pos merged t + false_neg merged t),
                      prf_divide (2 * true_pos merged t)
                         (2 * true_pos merged t + false_pos merged t + false_neg merged t))"
  have "sweep merged thresholds = Inr (map ?row thresholds)"
    by (simp add: sweep_def sweep_rows_eq)
  moreover have "map fst (map ?row thresholds) = thresholds"
    by (simp add: comp_def)
  moreover have "\<forall>(t, p, r, f1)\<in>set (map ?row thresholds).
              p = (if true_pos merged t + false_pos merged t = 0 then 0
                   else of_nat (true_pos merged t) / of_nat (true_pos merged t + false_pos merged t)) \<and>
              r = (if true_pos merged t + false_neg merged t = 0 then 0
                   else of_nat (true_pos merged t) / of_nat (true_pos merged t + false_neg merged t)) \<and>
              f1 = (if p + r = 0 then 0 else 2 * (p * r) / (p + r)) \<and>
              (p = 0 \<and> r = 0 \<longrightarrow> f1 = 0)"
  proof (clarify, intro conjI)
    fix t p r f1 assume "(t, p, r, f1) \<in> set (map ?row thresholds)"
    then have p: "p = prf_divide (true_pos merged t) (true_pos merged t + false_pos merged t)"
      and r: "r = prf_divide (true_pos merged t) (true_pos merged t + false_neg merged t)"
      and f: "f1 = prf_divide (2 * true_pos merged t)
                         (2 * true_pos merged t + false_pos merged t + false_neg merged t)"
      by auto
    show "p = (if true_pos merged t + false_pos merged t = 0 then 0
                   else of_nat (true_pos merged t) / of_nat (true_pos merged t + false_pos merged t))"
      by (simp only: p prf_divide_def)
    show "r = (if true_pos merged t + false_neg merged t = 0 then 0
                   else of_nat (true_pos merged t) / of_nat (true_pos merged t + false_neg merged t))"
      by (simp only: r prf_divide_def)
    show h: "f1 = (if p + r = 0 then 0 else 2 * (p * r) / (p + r))"
      unfolding p r f by (simp only: f1_harmonic Let_def)
    show "p = 0 \<and> r = 0 \<longrightarrow> f1 = 0"
      using h by simp
  qed
  ultimately show ?thesis by blast
qed

theorem sweep_total_witness:
  "tie_rows \<noteq> [] \<and> sweep tie_rows [1 / 2, 1] = Inr [(1 / 2, 1 / 2, 1, 2 / 3), (1, 0, 0, 0)]"
proof -
  have ne: "tie_rows \<noteq> []" by (simp add: tie_rows_def)
  have tp: "true_pos tie_rows (1 / 2) = 2" "true_pos tie_rows 1 = 0"
    and fp: "false_pos tie_rows (1 / 2) = 2" "false_pos tie_rows 1 = 0"
    and fn: "false_neg tie_rows (1 / 2) = 0" "false_neg tie_rows 1 = 2"
    by (simp_all add: tie_rows_def true_pos_def false_pos_def false_neg_def)
  from sweep_total [OF ne, of "[1 / 2, 1]"]
  obtain rows where s: "sweep tie_rows [1 / 2, 1] = Inr rows" and ts: "map fst rows = [1 / 2, 1]"
    and v: "\<forall>(t, p, r, f1)\<in>set rows.
              p = (if true_pos tie_rows t + false_pos tie_rows t = 0 then 0
                   else of_nat (true_pos tie_rows t) / of_nat (true_pos tie_rows t + false_pos tie_rows t)) \<and>
              r = (if true_pos tie_rows t + false_neg tie_rows t = 0 then 0
                   else of_nat (true_pos tie_rows t) / of_nat (true_pos tie_rows t + false_neg tie_rows t)) \<and>
              f1 = (if p + r = 0 then 0 else 2 * (p * r) / (p + r)) \<and>
              (p = 0 \<and> r = 0 \<longrightarrow> f1 = 0)"
    by (elim exE conjE)
  from ts obtain p1 r1 f1 p2 r2 f2 where rows: "rows = [(1 / 2, p1, r1, f1), (1, p2, r2, f2)]"
    by (auto simp: map_eq_Cons_conv)
  have p1: "p1 = 1 / 2" and r1: "r1 = 1" and p2: "p2 = 0" and r2: "r2 = 0"
    using v unfolding rows by (simp_all add: tp fp fn)
  have "f1 = (if p1 + r1 = 0 then 0 else 2 * (p1 * r1) / (p1 + r1))"
    and "f2 = (if p2 + r2 = 0 then 0 else 2 * (p2 * r2) / (p2 + r2))"
    using v unfolding rows by simp_all
  then have "f1 = 2 / 3" and "f2 = 0"
    unfolding p1 r1 p2 r2 by simp_all
  with p1 r1 p2 r2 have "rows = [(1 / 2, 1 / 2, 1, 2 / 3), (1, 0, 0, 0)]"
    unfolding rows by simp
  then show ?thesis using ne s by simp
qed

section \<open>Recall and the threshold\<close>

lemma recall_score_merged:
  "recall_score (y_true merged) (predict (y_scores merged) t) =
     Inr (prf_divide (true_pos merged t) (length (filter (\<lambda>m. label m) merged)))"
  by (simp add: recall_score_def length_predict count_tp_merged count_fn_merged true_pos_false_neg)

lemma curve_recall_merged:
  "curve_recall (y_true merged) (y_scores merged) t =
     (if length (filter (\<lambda>m. label m) merged) = 0 then 1
      else of_nat (true_pos merged t) / of_nat (length (filter (\<lambda>m. label m) merged)))"
  unfolding curve_recall_def tps_at_def count_tp_merged
  by (simp add: y_true_def length_filter_map comp_def)

lemma curve_recall_antimono:
  "t1 \<le> t2 \<Longrightarrow> curve_recall (y_true merged) (y_scores merged) t2
                 \<le> curve_recall (y_true merged) (y_scores merged) t1"
  by (simp add: curve_recall_merged divide_right_mono true_pos_antimono)

lemma curve_recall_nonneg: "0 \<le> curve_recall yt ys t"
  by (simp add: curve_recall_def Let_def)

lemma curve_recall_sorted:
  assumes "precision_recall_curve (y_true merged) (y_scores merged) = Inr (prec, rec, thr)"
  shows "sorted (rev rec) \<and> sorted thr \<and> length rec = length thr + 1"
proof -
  let ?R = "curve_recall (y_true merged) (y_scores merged)"
  have thr: "thr = sort (remdups (y_scores merged))" and rec: "rec = map ?R thr @ [0]"
    using assms by (auto simp: precision_recall_curve_def Let_def split: if_splits)
  have "sorted thr" by (simp add: thr)
  then have "sorted_wrt (\<lambda>x y. ?R y \<le> ?R x) thr"
    by (rule sorted_wrt_mono_rel [rotated]) (simp add: curve_recall_antimono)
  then have "sorted (rev (map ?R thr))"
    by (simp add: sorted_wrt_rev sorted_wrt_map rev_map [symmetric])
  then show ?thesis
    using \<open>sorted thr\<close> by (simp add: rec curve_recall_nonneg)
qed

text \<open>
  C7: for thresholds \<open>t1 <= t2\<close> the recall at \<open>t1\<close> is at least the recall at \<open>t2\<close>,
  for \<open>recall_score\<close> on the predictions \<open>score >= t\<close> (lines 119 to 124) and for the
  recall of \<open>precision_recall_curve\<close> (line 128).
\<close>

theorem recall_monotone:
  assumes "t1 \<le> t2"
  shows "\<exists>r1 r2. recall_score (y_true merged) (predict (y_scores merged) t1) = Inr r1
           \<and> recall_score (y_true merged) (predict (y_scores merged) t2) = Inr r2
           \<and> r2 \<le> r1
           \<and> curve_recall (y_true merged) (y_scores merged) t2
               \<le> curve_recall (y_true merged) (y_scores merged) t1"
  using assms
  by (simp add: recall_score_merged prf_divide_mono true_pos_antimono curve_recall_antimono)

theorem recall_monotone_witness:
  "(1 / 2 :: rat) \<le> 3 / 4
   \<and> recall_score (y_true tie_rows) (predict (y_scores tie_rows) (1 / 2)) = Inr 1
   \<and> recall_score (y_true tie_rows) (predict (y_scores tie_rows) (3 / 4)) = Inr (1 / 2)
   \<and> curve_recall (y_true tie_rows) (y_scores tie_rows) (3 / 4)
       \<le> curve_recall (y_true tie_rows) (y_scores tie_rows) (1 / 2)"
proof -
  have h: "(1 / 2 :: rat) \<le> 3 / 4" by simp
  have v: "recall_score (y_true tie_rows) (predict (y_scores tie_rows) (1 / 2)) = Inr 1"
    "recall_score (y_true tie_rows) (predict (y_scores tie_rows) (3 / 4)) = Inr (1 / 2)"
    by (simp_all add: recall_score_merged prf_divide_def true_pos_def tie_rows_def)
  show ?thesis
    using recall_monotone [OF h, of tie_rows] h v by blast
qed

section \<open>The best F1 of the curve\<close>

lemma argmax_from_spec:
  assumes "bi < length pre" "pre ! bi = best" "\<forall>j<length pre. pre ! j \<le> best"
    "\<forall>j<bi. pre ! j < best" "i = length pre"
  shows "argmax_from best bi i xs < length (pre @ xs)
         \<and> (\<forall>j<length (pre @ xs). (pre @ xs) ! j \<le> (pre @ xs) ! argmax_from best bi i xs)
         \<and> (\<forall>j<argmax_from best bi i xs. (pre @ xs) ! j < (pre @ xs) ! argmax_from best bi i xs)"
  using assms
proof (induction xs arbitrary: pre best bi i)
  case Nil
  then show ?case by simp
next
  case (Cons x xs)
  show ?case
  proof (cases "best < x")
    case True
    have "argmax_from x i (Suc i) xs < length ((pre @ [x]) @ xs)
         \<and> (\<forall>j<length ((pre @ [x]) @ xs). ((pre @ [x]) @ xs) ! j \<le> ((pre @ [x]) @ xs) ! argmax_from x i (Suc i) xs)
         \<and> (\<forall>j<argmax_from x i (Suc i) xs. ((pre @ [x]) @ xs) ! j < ((pre @ [x]) @ xs) ! argmax_from x i (Suc i) xs)"
    proof (rule Cons.IH)
      show "i < length (pre @ [x])" using Cons.prems by simp
      show "(pre @ [x]) ! i = x" using Cons.prems by simp
      show "\<forall>j<length (pre @ [x]). (pre @ [x]) ! j \<le> x"
        using Cons.prems True by (auto simp: nth_append less_Suc_eq intro: order_trans less_imp_le)
      show "\<forall>j<i. (pre @ [x]) ! j < x"
        using Cons.prems True by (auto simp: nth_append intro: le_less_trans)
      show "Suc i = length (pre @ [x])" using Cons.prems by simp
    qed
    then show ?thesis using True by simp
  next
    case False
    have "argmax_from best bi (Suc i) xs < length ((pre @ [x]) @ xs)
         \<and> (\<forall>j<length ((pre @ [x]) @ xs). ((pre @ [x]) @ xs) ! j \<le> ((pre @ [x]) @ xs) ! argmax_from best bi (Suc i) xs)
         \<and> (\<forall>j<argmax_from best bi (Suc i) xs. ((pre @ [x]) @ xs) ! j < ((pre @ [x]) @ xs) ! argmax_from best bi (Suc i) xs)"
    proof (rule Cons.IH)
      show "bi < length (pre @ [x])" using Cons.prems by simp
      show "(pre @ [x]) ! bi = best" using Cons.prems by (simp add: nth_append)
      show "\<forall>j<length (pre @ [x]). (pre @ [x]) ! j \<le> best"
        using Cons.prems False by (auto simp: nth_append less_Suc_eq)
      show "\<forall>j<bi. (pre @ [x]) ! j < best"
        using Cons.prems by (auto simp: nth_append)
      show "Suc i = length (pre @ [x])" using Cons.prems by simp
    qed
    then show ?thesis using False by simp
  qed
qed

lemma argmax_spec:
  assumes "xs \<noteq> []"
  shows "\<exists>k. argmax xs = Inr k \<and> k < length xs \<and> (\<forall>j<length xs. xs ! j \<le> xs ! k)
             \<and> (\<forall>j<k. xs ! j < xs ! k)"
proof -
  obtain x rest where xs: "xs = x # rest" using assms by (cases xs) auto
  have "argmax_from x 0 1 rest < length ([x] @ rest)
         \<and> (\<forall>j<length ([x] @ rest). ([x] @ rest) ! j \<le> ([x] @ rest) ! argmax_from x 0 1 rest)
         \<and> (\<forall>j<argmax_from x 0 1 rest. ([x] @ rest) ! j < ([x] @ rest) ! argmax_from x 0 1 rest)"
    by (rule argmax_from_spec) simp_all
  then show ?thesis by (simp add: xs argmax_def)
qed


lemma f1_scores_curve:
  "f1_scores (map P ts @ [a]) (map R ts @ [b]) = map (\<lambda>t. f1_smoothed (P t) (R t)) ts"
  by (simp add: f1_scores_def zip_map_map zip_same_conv_map comp_def)

lemmas curve_eval = best_f1_thresh_def precision_recall_curve_def y_true_def y_scores_def
  curve_precision_def curve_recall_def tps_at_def fps_at_def count_tp_def count_fp_def
  predict_def argmax_def f1_scores_def f1_smoothed_def smoothed_f1_at_def
  harmonic_f1_at_def

text \<open>
  C1, as stated, fails in three ways. The empty frame is rejected. On \<open>tie_rows\<close> the
  F1 of the specification, the harmonic mean, is 2/3 at both thresholds 0.5 and 0.75:
  \<open>best_f1\<close> is not 2/3 but the value of line 75, which has \<open>1e-10\<close> added to the
  denominator, and \<open>best_thresh\<close> is 0.5, the smaller of the two thresholds, since the
  thresholds of the curve are in increasing order and \<open>argmax\<close> takes the first
  greatest entry.
\<close>

theorem best_f1_tie_takes_smallest_threshold:
  "best_f1_thresh [] = Inl ValueError
   \<and> best_f1_thresh tie_rows = Inr (10000000000 / 15000000001, 1 / 2)
   \<and> y_scores tie_rows = [3 / 4, 1 / 2, 1 / 2, 1 / 2]
   \<and> harmonic_f1_at tie_rows (1 / 2) = 2 / 3
   \<and> harmonic_f1_at tie_rows (3 / 4) = 2 / 3
   \<and> (10000000000 / 15000000001 :: rat) < 2 / 3
   \<and> smoothed_f1_at tie_rows (1 / 2) = 10000000000 / 15000000001
   \<and> smoothed_f1_at tie_rows (3 / 4) = 10000000000 / 15000000001
   \<and> (1 / 2 :: rat) < 3 / 4"
  by (simp add: tie_rows_def curve_eval)

text \<open>
  Ties of the harmonic mean are not ties of the value of line 75: in
  \<open>harmonic_tie_rows\<close> the harmonic mean is 1/2 at 0.5 and at 0.75 and smaller at
  0.25, the value of line 75 is greater at 0.75, and 0.75 is returned.
\<close>

lemma harmonic_tie_example:
  "harmonic_f1_at harmonic_tie_rows (1 / 4) = 6 / 13
   \<and> harmonic_f1_at harmonic_tie_rows (1 / 2) = 1 / 2
   \<and> harmonic_f1_at harmonic_tie_rows (3 / 4) = 1 / 2
   \<and> smoothed_f1_at harmonic_tie_rows (1 / 2) = 16000000000 / 32000000003
   \<and> smoothed_f1_at harmonic_tie_rows (3 / 4) = 20000000000 / 40000000003
   \<and> best_f1_thresh harmonic_tie_rows = Inr (20000000000 / 40000000003, 3 / 4)"
  by (simp add: harmonic_tie_rows_def curve_eval)

text \<open>
  C1, amended: for a merged frame with at least one row, \<open>best_f1\<close> is the greatest
  value of line 75, \<open>2 * p * r / (p + r + 1e-10)\<close>, over the curve points that have a
  threshold, it is that value at \<open>best_thresh\<close>, and \<open>best_thresh\<close> is the smallest
  threshold with that value.
\<close>

theorem best_f1_smallest_threshold:
  assumes "merged \<noteq> []"
  shows "\<exists>best_f1 best_thresh.
           best_f1_thresh merged = Inr (best_f1, best_thresh)
           \<and> best_thresh \<in> set (y_scores merged)
           \<and> best_f1 = smoothed_f1_at merged best_thresh
           \<and> best_f1 = Max (smoothed_f1_at merged ` set (y_scores merged))
           \<and> (\<forall>t\<in>set (y_scores merged).
                 smoothed_f1_at merged t = best_f1 \<longrightarrow> best_thresh \<le> t)"
proof -
  let ?yt = "y_true merged" and ?ys = "y_scores merged"
  let ?ts = "sort (remdups ?ys)"
  let ?f1s = "map (smoothed_f1_at merged) ?ts"
  have ys: "?ys \<noteq> []" "length ?yt = length ?ys"
    using assms by (simp_all add: y_scores_def y_true_def)
  have curve: "precision_recall_curve ?yt ?ys =
      Inr (map (curve_precision ?yt ?ys) ?ts @ [1], map (curve_recall ?yt ?ys) ?ts @ [0], ?ts)"
    using ys by (simp add: precision_recall_curve_def Let_def)
  have f1s: "f1_scores (map (curve_precision ?yt ?ys) ?ts @ [1]) (map (curve_recall ?yt ?ys) ?ts @ [0]) = ?f1s"
    by (simp add: f1_scores_curve smoothed_f1_at_def)
  have set_ts: "set ?ts = set ?ys" by simp
  have "?ts \<noteq> []"
  proof
    assume "?ts = []"
    then have "set ?ys = {}" using set_ts by simp
    then show False using ys by simp
  qed
  then have ne: "?f1s \<noteq> []" by simp
  obtain k where k: "argmax ?f1s = Inr k" "k < length ?f1s"
    and ge: "\<forall>j<length ?f1s. ?f1s ! j \<le> ?f1s ! k"
    and first: "\<forall>j<k. ?f1s ! j < ?f1s ! k"
    using argmax_spec [OF ne] by blast
  have klen: "k < length ?ts" using k by simp
  have res: "best_f1_thresh merged = Inr (smoothed_f1_at merged (?ts ! k), ?ts ! k)"
    using k klen by (simp add: best_f1_thresh_def curve f1s Let_def)
  have mem: "?ts ! k \<in> set ?ys"
    using klen set_ts nth_mem by blast
  have le: "smoothed_f1_at merged t \<le> smoothed_f1_at merged (?ts ! k)" if "t \<in> set ?ys" for t
  proof -
    from that set_ts obtain j where "j < length ?ts" "?ts ! j = t"
      by (metis in_set_conv_nth)
    then show ?thesis using ge klen by force
  qed
  have tie: "?ts ! k \<le> t" if "t \<in> set ?ys" "smoothed_f1_at merged t = smoothed_f1_at merged (?ts ! k)" for t
  proof -
    from that set_ts obtain j where j: "j < length ?ts" "?ts ! j = t"
      by (metis in_set_conv_nth)
    have "\<not> j < k"
    proof
      assume "j < k"
      then have "?f1s ! j < ?f1s ! k" using first by blast
      then show False using j klen that(2) by simp
    qed
    then have "k \<le> j" by simp
    then show ?thesis using j sorted_nth_mono [of ?ts k j] by simp
  qed
  have "Max (smoothed_f1_at merged ` set ?ys) = smoothed_f1_at merged (?ts ! k)"
    by (rule Max_eqI) (use le mem in auto)
  then show ?thesis using res mem tie by auto
qed


theorem best_f1_smallest_threshold_witness:
  "scenario_rows \<noteq> []
   \<and> best_f1_thresh scenario_rows = Inr (20000000000 / 20000000001, 9 / 10)
   \<and> smoothed_f1_at scenario_rows (9 / 10) = Max (smoothed_f1_at scenario_rows ` set (y_scores scenario_rows))"
proof -
  have ne: "scenario_rows \<noteq> []" by (simp add: scenario_rows_def)
  have v: "best_f1_thresh scenario_rows = Inr (20000000000 / 20000000001, 9 / 10)"
    and f: "smoothed_f1_at scenario_rows (9 / 10) = 20000000000 / 20000000001"
    by (simp_all add: scenario_rows_def curve_eval)
  from best_f1_smallest_threshold [OF ne]
  obtain best_f1 best_thresh
    where r: "best_f1_thresh scenario_rows = Inr (best_f1, best_thresh)"
      and m: "best_f1 = Max (smoothed_f1_at scenario_rows ` set (y_scores scenario_rows))"
    by blast
  from r v have "best_f1 = 20000000000 / 20000000001" by simp
  with m f have "smoothed_f1_at scenario_rows (9 / 10) = Max (smoothed_f1_at scenario_rows ` set (y_scores scenario_rows))"
    by simp
  then show ?thesis using ne v by simp
qed


section \<open>Properties of the error analysis\<close>

lemma length_times_le_sum_list:
  fixes xs :: "rat list"
  assumes "\<forall>x\<in>set xs. m \<le> x"
  shows "of_nat (length xs) * m \<le> sum_list xs"
  using assms by (induction xs) (auto simp: algebra_simps)

lemma min_list_le_mean:
  assumes "xs \<noteq> []"
  shows "min_list xs \<le> mean xs"
proof -
  have "\<forall>x\<in>set xs. min_list xs \<le> x"
    using assms by (simp add: min_list_Min)
  then have "of_nat (length xs) * min_list xs \<le> sum_list xs"
    by (rule length_times_le_sum_list)
  moreover have "0 < (of_nat (length xs) :: rat)"
    using assms by simp
  ultimately show ?thesis
    by (simp add: mean_def pos_le_divide_eq mult.commute)
qed

lemma fallback_separated:
  fixes lo mn :: rat
  assumes "lo \<le> mn"
  shows "min (1 / 100) (max 0 lo) < max (1 / 100) (mn + 1 / 10 ^ 6)"
  using assms by (auto simp: min_def max_def)

lemma high_low_separated:
  "snd (high_low_thresh merged) < fst (high_low_thresh merged)"
proof (cases "merged = []")
  case True
  then show ?thesis by (simp add: high_low_thresh_def)
next
  case False
  then have "min_list (y_scores merged) \<le> mean (y_scores merged)"
    by (intro min_list_le_mean) (simp add: y_scores_def)
  then have "min (1 / 100) (max 0 (min_list (y_scores merged)))
               < max (1 / 100) (mean (y_scores merged) + 1 / 10 ^ 6)"
    by (rule fallback_separated)
  then show ?thesis
    by (simp add: high_low_thresh_def Let_def)
qed


text \<open>
  C8: the final \<open>high_thresh\<close> is above the final \<open>low_thresh\<close>, whether or not they
  were computed again from the mean and the minimum of all scores.
\<close>

theorem high_thresh_above_low_thresh:
  "(case high_low_thresh merged of (high_thresh, low_thresh) \<Rightarrow> low_thresh < high_thresh)"
  using high_low_separated [of merged] by (simp add: case_prod_beta)

theorem high_thresh_above_low_thresh_witness:
  "high_low_thresh inverted_rows = (500001 / 1000000, 1 / 100)
   \<and> (1 / 100 :: rat) < 500001 / 1000000"
proof -
  have v: "high_low_thresh inverted_rows = (500001 / 1000000, 1 / 100)"
    by (simp add: inverted_rows_def high_low_thresh_def quantile_half_def mean_def y_scores_def)
  show ?thesis
    using high_thresh_above_low_thresh [of inverted_rows] unfolding v by simp
qed

lemma stratify_tp:
  "tp (stratify merged) =
     filter (\<lambda>r. label r \<and> fst (high_low_thresh merged) \<le> score r) merged"
  by (simp add: stratify_def Let_def case_prod_beta)

lemma stratify_tn:
  "tn (stratify merged) =
     filter (\<lambda>r. \<not> label r \<and> score r \<le> snd (high_low_thresh merged)) merged"
  by (simp add: stratify_def Let_def case_prod_beta)

lemma stratify_fn:
  "fn (stratify merged) =
     filter (\<lambda>r. label r \<and> score r \<le> snd (high_low_thresh merged)) merged"
  by (simp add: stratify_def Let_def case_prod_beta)

lemma stratify_fp_label:
  assumes "r \<in> set (fp (stratify merged))"
  shows "\<not> label r"
  using assms
  by (auto simp: stratify_def Let_def case_prod_beta split: if_splits dest!: in_set_takeD)

text \<open>
  The padding of lines 160 to 165: a negative pair without a score is in TN with score
  0 and is also listed under FP, there with the nominal score \<open>1e-6\<close>.
\<close>

lemma stratify_padding_example:
  "unscored_rows = [\<lparr>path_a = ''x'', path_b = ''y'', label = False, key = ''x|y'', score = 0\<rparr>]
   \<and> high_low_thresh unscored_rows = (1 / 100, 0)
   \<and> stratify unscored_rows =
       \<lparr>tp = [],
        fp = [\<lparr>path_a = ''x'', path_b = ''y'', label = False, key = ''x|y'', score = 1 / 10 ^ 6\<rparr>],
        tn = [\<lparr>path_a = ''x'', path_b = ''y'', label = False, key = ''x|y'', score = 0\<rparr>],
        fn = []\<rparr>"
  by (simp add: unscored_rows_def merge_evaluate_eq first_score_def make_key_cases strip_def
      is_space_def stratify_def high_low_thresh_def quantile_half_def mean_def y_scores_def Let_def)

text \<open>
  C9, as stated, fails: a row with label 0 and a score above 0 but not above
  \<open>low_thresh\<close> is both in FP and in TN.
\<close>

theorem fp_tn_share_row:
  "\<lparr>path_a = ''e'', path_b = ''f'', label = False, key = ''e|f'', score = 1 / 2\<rparr> \<in> set tie_rows
   \<and> high_low_thresh tie_rows = (5 / 8, 1 / 2)
   \<and> \<lparr>path_a = ''e'', path_b = ''f'', label = False, key = ''e|f'', score = 1 / 2\<rparr>
        \<in> set (fp (stratify tie_rows))
   \<and> \<lparr>path_a = ''e'', path_b = ''f'', label = False, key = ''e|f'', score = 1 / 2\<rparr>
        \<in> set (tn (stratify tie_rows))"
  by (simp add: tie_rows_def stratify_def high_low_thresh_def quantile_half_def mean_def y_scores_def Let_def)

text \<open>
  C9, amended: every two of the four buckets other than the pair FP and TN have no row
  in common.
\<close>

theorem buckets_disjoint_except_fp_tn:
  "set (tp (stratify merged)) \<inter> set (fn (stratify merged)) = {}
   \<and> set (tp (stratify merged)) \<inter> set (fp (stratify merged)) = {}
   \<and> set (tp (stratify merged)) \<inter> set (tn (stratify merged)) = {}
   \<and> set (fn (stratify merged)) \<inter> set (fp (stratify merged)) = {}
   \<and> set (fn (stratify merged)) \<inter> set (tn (stratify merged)) = {}"
proof (intro conjI)
  show "set (tp (stratify merged)) \<inter> set (fn (stratify merged)) = {}"
    using high_low_separated [of merged] by (auto simp: stratify_tp stratify_fn)
  show "set (tp (stratify merged)) \<inter> set (fp (stratify merged)) = {}"
    using stratify_fp_label [of _ merged] by (auto simp: stratify_tp)
  show "set (tp (stratify merged)) \<inter> set (tn (stratify merged)) = {}"
    by (auto simp: stratify_tp stratify_tn)
  show "set (fn (stratify merged)) \<inter> set (fp (stratify merged)) = {}"
    using stratify_fp_label [of _ merged] by (auto simp: stratify_fn)
  show "set (fn (stratify merged)) \<inter> set (tn (stratify merged)) = {}"
    by (auto simp: stratify_fn stratify_tn)
qed


theorem buckets_disjoint_except_fp_tn_witness:
  "tp (stratify tie_rows) = [tie_rows ! 0] \<and> fn (stratify tie_rows) = [tie_rows ! 1]
   \<and> set (tp (stratify tie_rows)) \<inter> set (fn (stratify tie_rows)) = {}"
proof -
  have "tp (stratify tie_rows) = [tie_rows ! 0] \<and> fn (stratify tie_rows) = [tie_rows ! 1]"
    by (simp add: tie_rows_def stratify_def high_low_thresh_def quantile_half_def mean_def y_scores_def Let_def)
  then show ?thesis
    using buckets_disjoint_except_fp_tn [of tie_rows] by blast
qed


end
